theory Spec2Isabelle
  imports Main
begin

section \<open>Python built-ins used by the ISY-994 component\<close>

text \<open>
  Strings are \<^typ>\<open>string\<close>.  The names, addresses, types and unit codes that the
  controller reports are ASCII text, and the functions below are Python's on such text.
  The exceptions that the embedded code can raise are collected in one type.
\<close>

datatype error = ValueError | IndexError | TypeError | KeyError | AttributeError

text \<open>\<^verbatim>\<open>s.startswith(p)\<close>\<close>

fun startswith :: "string \<Rightarrow> string \<Rightarrow> bool" where
  "startswith s [] = True"
| "startswith [] (p # ps) = False"
| "startswith (c # s) (p # ps) = (c = p \<and> startswith s ps)"

text \<open>\<^verbatim>\<open>needle in hay\<close> on two strings: \<open>needle\<close> occurs as a contiguous piece of \<open>hay\<close>.\<close>

fun str_in :: "string \<Rightarrow> string \<Rightarrow> bool" where
  "str_in needle [] = (needle = [])"
| "str_in needle (c # hay) = (startswith (c # hay) needle \<or> str_in needle hay)"

text \<open>\<^verbatim>\<open>str.lower\<close>, on the letters A to Z.\<close>

definition lower_char :: "char \<Rightarrow> char" where
  "lower_char c =
     (case map_of (zip ''ABCDEFGHIJKLMNOPQRSTUVWXYZ'' ''abcdefghijklmnopqrstuvwxyz'') c of
        Some l \<Rightarrow> l
      | None \<Rightarrow> c)"

definition lower :: "string \<Rightarrow> string" where
  "lower s = map lower_char s"

text \<open>\<^verbatim>\<open>str(n)\<close> for a non-negative integer, as used on \<^verbatim>\<open>range(...)\<close> in the rule table.\<close>

fun str :: "nat \<Rightarrow> string" where
  "str n = (if n < 10 then [''0123456789'' ! n]
            else str (n div 10) @ [''0123456789'' ! (n mod 10)])"

declare str.simps [simp del]

text \<open>
  \<^verbatim>\<open>int(c)\<close> on a one-character string: the decimal digits convert, every other character
  raises \<^verbatim>\<open>ValueError\<close>.
\<close>

definition int_of_char :: "char \<Rightarrow> error + int" where
  "int_of_char c =
     (case map_of (zip ''0123456789'' [0, 1, 2, 3, 4, 5, 6, 7, 8, 9]) c of
        Some d \<Rightarrow> Inr d
      | None \<Rightarrow> Inl ValueError)"

text \<open>\<^verbatim>\<open>int(s[-1])\<close>: indexing the empty string raises \<^verbatim>\<open>IndexError\<close>.\<close>

definition int_of_last :: "string \<Rightarrow> error + int" where
  "int_of_last s = (if s = [] then Inl IndexError else int_of_char (last s))"

text \<open>The truth value of an optional list argument: \<^verbatim>\<open>None\<close> and \<^verbatim>\<open>[]\<close> are both false.\<close>

definition list_or_empty :: "'a list option \<Rightarrow> 'a list" where
  "list_or_empty l = (case l of None \<Rightarrow> [] | Some xs \<Rightarrow> xs)"

section \<open>The rule table\<close>

datatype domain = binary_sensor | sensor | lock | fan | cover | light | switch | climate

datatype filter_key = UOM | STATES | NODE_DEF_ID | INSTEON_TYPE | ZWAVE_CAT

fun NODE_FILTERS :: "domain \<Rightarrow> filter_key \<Rightarrow> string list" where
  "NODE_FILTERS binary_sensor UOM = []"
| "NODE_FILTERS binary_sensor STATES = []"
| "NODE_FILTERS binary_sensor NODE_DEF_ID = [''BinaryAlarm'', ''OnOffControl_ADV'']"
| "NODE_FILTERS binary_sensor INSTEON_TYPE = [''7.13.'', ''16.'']"
| "NODE_FILTERS binary_sensor ZWAVE_CAT = [''104'', ''112'', ''138''] @ map str [148..<179]"
| "NODE_FILTERS sensor UOM =
     [''1''] @ map str [3..<11] @ map str [12..<51] @ map str [52..<66] @
     map str [69..<78] @ [''79''] @ map str [82..<97]"
| "NODE_FILTERS sensor STATES = []"
| "NODE_FILTERS sensor NODE_DEF_ID = [''IMETER_SOLO'']"
| "NODE_FILTERS sensor INSTEON_TYPE = [''9.0.'', ''9.7.'']"
| "NODE_FILTERS sensor ZWAVE_CAT = [''118''] @ map str [180..<184]"
| "NODE_FILTERS lock UOM = [''11'']"
| "NODE_FILTERS lock STATES = [''locked'', ''unlocked'']"
| "NODE_FILTERS lock NODE_DEF_ID = [''DoorLock'']"
| "NODE_FILTERS lock INSTEON_TYPE = [''15.'']"
| "NODE_FILTERS lock ZWAVE_CAT = [''111'']"
| "NODE_FILTERS fan UOM = []"
| "NODE_FILTERS fan STATES = [''off'', ''low'', ''med'', ''high'']"
| "NODE_FILTERS fan NODE_DEF_ID = [''FanLincMotor'']"
| "NODE_FILTERS fan INSTEON_TYPE = [''1.46.'']"
| "NODE_FILTERS fan ZWAVE_CAT = []"
| "NODE_FILTERS cover UOM = [''97'']"
| "NODE_FILTERS cover STATES = [''open'', ''closed'', ''closing'', ''opening'', ''stopped'']"
| "NODE_FILTERS cover NODE_DEF_ID = []"
| "NODE_FILTERS cover INSTEON_TYPE = []"
| "NODE_FILTERS cover ZWAVE_CAT = []"
| "NODE_FILTERS light UOM = [''51'']"
| "NODE_FILTERS light STATES = [''on'', ''off'', ''%'']"
| "NODE_FILTERS light NODE_DEF_ID =
     [''DimmerLampSwitch'', ''DimmerLampSwitch_ADV'',
      ''DimmerSwitchOnly'', ''DimmerSwitchOnly_ADV'',
      ''DimmerLampOnly'', ''BallastRelayLampSwitch'',
      ''BallastRelayLampSwitch_ADV'',
      ''RemoteLinc2'', ''RemoteLinc2_ADV'']"
| "NODE_FILTERS light INSTEON_TYPE = [''1.'']"
| "NODE_FILTERS light ZWAVE_CAT = [''109'', ''119'']"
| "NODE_FILTERS switch UOM = [''2'', ''78'']"
| "NODE_FILTERS switch STATES = [''on'', ''off'']"
| "NODE_FILTERS switch NODE_DEF_ID =
     [''OnOffControl'', ''RelayLampSwitch'',
      ''RelayLampSwitch_ADV'', ''RelaySwitchOnlyPlusQuery'',
      ''RelaySwitchOnlyPlusQuery_ADV'', ''RelayLampOnly'',
      ''RelayLampOnly_ADV'', ''KeypadButton'',
      ''KeypadButton_ADV'', ''EZRAIN_Input'', ''EZRAIN_Output'',
      ''EZIO2x4_Input'', ''EZIO2x4_Input_ADV'', ''BinaryControl'',
      ''BinaryControl_ADV'', ''AlertModuleSiren'',
      ''AlertModuleSiren_ADV'', ''AlertModuleArmed'', ''Siren'',
      ''Siren_ADV'']"
| "NODE_FILTERS switch INSTEON_TYPE = [''2.'', ''9.10.'', ''9.11.'']"
| "NODE_FILTERS switch ZWAVE_CAT = [''121'', ''122'', ''123'', ''137'', ''141'', ''147'']"
| "NODE_FILTERS climate UOM = [''2'']"
| "NODE_FILTERS climate STATES = [''heating'', ''cooling'', ''idle'', ''fan_only'', ''off'']"
| "NODE_FILTERS climate NODE_DEF_ID = [''TempLinc'', ''Thermostat'']"
| "NODE_FILTERS climate INSTEON_TYPE = [''5.'']"
| "NODE_FILTERS climate ZWAVE_CAT = [''140'']"

definition SUPPORTED_DOMAINS :: "domain list" where
  "SUPPORTED_DOMAINS = [binary_sensor, sensor, lock, fan, cover, light, switch, climate]"

definition SUPPORTED_PROGRAM_DOMAINS :: "domain list" where
  "SUPPORTED_PROGRAM_DOMAINS = [binary_sensor, lock, fan, cover, switch]"

definition SCENE_DOMAIN :: domain where
  "SCENE_DOMAIN = switch"

text \<open>The string each category is written as, for \<^verbatim>\<open>'HA.{}'.format(domain)\<close>.\<close>

fun domain_name :: "domain \<Rightarrow> string" where
  "domain_name binary_sensor = ''binary_sensor''"
| "domain_name sensor = ''sensor''"
| "domain_name lock = ''lock''"
| "domain_name fan = ''fan''"
| "domain_name cover = ''cover''"
| "domain_name light = ''light''"
| "domain_name switch = ''switch''"
| "domain_name climate = ''climate''"

definition KEY_ACTIONS :: string where "KEY_ACTIONS = ''actions''"
definition KEY_FOLDER :: string where "KEY_FOLDER = ''folder''"
definition KEY_MY_PROGRAMS :: string where "KEY_MY_PROGRAMS = ''My Programs''"
definition KEY_STATUS :: string where "KEY_STATUS = ''status''"

section \<open>Nodes and the single-dimension matchers\<close>

text \<open>
  A node as the controller library reports it.  The fields probed with \<^verbatim>\<open>hasattr\<close> are
  optional: \<open>None\<close> stands for an attribute that is missing or is \<^verbatim>\<open>None\<close>, which the
  code treats alike.  \<open>is_group\<close> is \<^verbatim>\<open>isinstance(node, Group)\<close>.
\<close>

record node =
  name :: string
  nid :: string
  node_def_id :: "string option"
  type :: "string option"
  devtype_cat :: "string option"
  uom :: "string list option"
  is_group :: bool

text \<open>
  \<^verbatim>\<open>hass.data[ISY994_NODES]\<close>: one list of nodes per category.  A call returns its value or
  the exception it raises, together with the buckets as the call leaves them.
\<close>

type_synonym nodes = "domain \<Rightarrow> node list"

type_synonym 'a result = "(error + 'a) \<times> nodes"

definition append_node :: "nodes \<Rightarrow> domain \<Rightarrow> node \<Rightarrow> nodes" where
  "append_node hass domain node = hass(domain := hass domain @ [node])"

text \<open>\<^verbatim>\<open>SUPPORTED_DOMAINS if not single_domain else [single_domain]\<close>\<close>

definition domains_for :: "domain option \<Rightarrow> domain list" where
  "domains_for single_domain =
     (case single_domain of None \<Rightarrow> SUPPORTED_DOMAINS | Some d \<Rightarrow> [d])"

fun node_def_loop :: "nodes \<Rightarrow> node \<Rightarrow> string \<Rightarrow> domain list \<Rightarrow> bool result" where
  "node_def_loop hass node ndi [] = (Inr False, hass)"
| "node_def_loop hass node ndi (domain # domains) =
     (if ndi \<in> set (NODE_FILTERS domain NODE_DEF_ID)
      then (Inr True, append_node hass domain node)
      else node_def_loop hass node ndi domains)"

definition check_for_node_def :: "nodes \<Rightarrow> node \<Rightarrow> domain option \<Rightarrow> bool result" where
  "check_for_node_def hass node single_domain =
     (case node_def_id node of
        None \<Rightarrow> (Inr False, hass)
      | Some ndi \<Rightarrow> node_def_loop hass node ndi (domains_for single_domain))"

text \<open>
  The two guards of the protocol-type matcher, \<^verbatim>\<open>domain == 'fan' and int(node.nid[-1]) == 1\<close>
  and \<^verbatim>\<open>domain == 'climate' and int(node.nid[-1]) in [2, 3]\<close>: the conversion is only
  evaluated when the category test before \<^verbatim>\<open>and\<close> holds.
\<close>

definition fan_special_case :: "domain \<Rightarrow> node \<Rightarrow> error + bool" where
  "fan_special_case domain node =
     (if domain = fan
      then (case int_of_last (nid node) of Inl e \<Rightarrow> Inl e | Inr k \<Rightarrow> Inr (k = 1))
      else Inr False)"

definition climate_special_case :: "domain \<Rightarrow> node \<Rightarrow> error + bool" where
  "climate_special_case domain node =
     (if domain = climate
      then (case int_of_last (nid node) of Inl e \<Rightarrow> Inl e | Inr k \<Rightarrow> Inr (k \<in> set [2, 3]))
      else Inr False)"

fun insteon_type_loop :: "nodes \<Rightarrow> node \<Rightarrow> string \<Rightarrow> domain list \<Rightarrow> bool result" where
  "insteon_type_loop hass node device_type [] = (Inr False, hass)"
| "insteon_type_loop hass node device_type (domain # domains) =
     (if list_ex (startswith device_type) (NODE_FILTERS domain INSTEON_TYPE)
      then (case fan_special_case domain node of
              Inl e \<Rightarrow> (Inl e, hass)
            | Inr True \<Rightarrow> (Inr True, append_node hass light node)
            | Inr False \<Rightarrow>
                (case climate_special_case domain node of
                   Inl e \<Rightarrow> (Inl e, hass)
                 | Inr True \<Rightarrow> (Inr True, append_node hass binary_sensor node)
                 | Inr False \<Rightarrow> (Inr True, append_node hass domain node)))
      else insteon_type_loop hass node device_type domains)"

definition check_for_insteon_type :: "nodes \<Rightarrow> node \<Rightarrow> domain option \<Rightarrow> bool result" where
  "check_for_insteon_type hass node single_domain =
     (case type node of
        None \<Rightarrow> (Inr False, hass)
      | Some device_type \<Rightarrow>
          insteon_type_loop hass node device_type (domains_for single_domain))"

fun zwave_cat_loop :: "nodes \<Rightarrow> node \<Rightarrow> string \<Rightarrow> domain list \<Rightarrow> bool result" where
  "zwave_cat_loop hass node device_type [] = (Inr False, hass)"
| "zwave_cat_loop hass node device_type (domain # domains) =
     (if list_ex (startswith device_type) (NODE_FILTERS domain ZWAVE_CAT)
      then (Inr True, append_node hass domain node)
      else zwave_cat_loop hass node device_type domains)"

definition check_for_zwave_cat :: "nodes \<Rightarrow> node \<Rightarrow> domain option \<Rightarrow> bool result" where
  "check_for_zwave_cat hass node single_domain =
     (case devtype_cat node of
        None \<Rightarrow> (Inr False, hass)
      | Some device_type \<Rightarrow>
          zwave_cat_loop hass node device_type (domains_for single_domain))"

text \<open>
  \<^verbatim>\<open>hass.data[ISY994_NODES][single_domain].append(node)\<close> in the branches that take an
  override list: with no category named, the subscript \<^verbatim>\<open>None\<close> is not a key.
\<close>

definition append_single :: "nodes \<Rightarrow> domain option \<Rightarrow> node \<Rightarrow> bool result" where
  "append_single hass single_domain node =
     (case single_domain of
        None \<Rightarrow> (Inl KeyError, hass)
      | Some d \<Rightarrow> (Inr True, append_node hass d node))"

fun uom_id_loop :: "nodes \<Rightarrow> node \<Rightarrow> string set \<Rightarrow> domain list \<Rightarrow> bool result" where
  "uom_id_loop hass node node_uom [] = (Inr False, hass)"
| "uom_id_loop hass node node_uom (domain # domains) =
     (if node_uom \<inter> set (NODE_FILTERS domain UOM) \<noteq> {}
      then (Inr True, append_node hass domain node)
      else uom_id_loop hass node node_uom domains)"

definition check_for_uom_id ::
  "nodes \<Rightarrow> node \<Rightarrow> domain option \<Rightarrow> string list option \<Rightarrow> bool result" where
  "check_for_uom_id hass node single_domain uom_list =
     (case uom node of
        None \<Rightarrow> (Inr False, hass)
      | Some u \<Rightarrow>
          (let node_uom = set (map lower u) in
           if list_or_empty uom_list \<noteq> []
           then (if node_uom \<inter> set (list_or_empty uom_list) \<noteq> {}
                 then append_single hass single_domain node
                 else (Inr False, hass))
           else uom_id_loop hass node node_uom (domains_for single_domain)))"

fun states_in_uom_loop :: "nodes \<Rightarrow> node \<Rightarrow> string set \<Rightarrow> domain list \<Rightarrow> bool result" where
  "states_in_uom_loop hass node node_uom [] = (Inr False, hass)"
| "states_in_uom_loop hass node node_uom (domain # domains) =
     (if node_uom = set (NODE_FILTERS domain STATES)
      then (Inr True, append_node hass domain node)
      else states_in_uom_loop hass node node_uom domains)"

definition check_for_states_in_uom ::
  "nodes \<Rightarrow> node \<Rightarrow> domain option \<Rightarrow> string list option \<Rightarrow> bool result" where
  "check_for_states_in_uom hass node single_domain states_list =
     (case uom node of
        None \<Rightarrow> (Inr False, hass)
      | Some u \<Rightarrow>
          (let node_uom = set (map lower u) in
           if list_or_empty states_list \<noteq> []
           then (if node_uom = set (list_or_empty states_list)
                 then append_single hass single_domain node
                 else (Inr False, hass))
           else states_in_uom_loop hass node node_uom (domains_for single_domain)))"

section \<open>The node classifier\<close>

text \<open>
  \<^verbatim>\<open>if check(...): return True\<close> (in the classifier: \<^verbatim>\<open>continue\<close>) followed by the rest of
  the body: an exception or a match ends the sequence, a miss runs the rest on the buckets
  the check left.
\<close>

definition or_else :: "bool result \<Rightarrow> (nodes \<Rightarrow> bool result) \<Rightarrow> bool result" where
  "or_else r rest =
     (case r of
        (Inl e, hass) \<Rightarrow> (Inl e, hass)
      | (Inr True, hass) \<Rightarrow> (Inr True, hass)
      | (Inr False, hass) \<Rightarrow> rest hass)"

definition is_sensor_a_binary_sensor :: "nodes \<Rightarrow> node \<Rightarrow> bool result" where
  "is_sensor_a_binary_sensor hass node =
     or_else (check_for_node_def hass node (Some binary_sensor)) (\<lambda>hass.
     or_else (check_for_insteon_type hass node (Some binary_sensor)) (\<lambda>hass.
     or_else (check_for_uom_id hass node (Some binary_sensor) (Some [''2'', ''78''])) (\<lambda>hass.
     or_else (check_for_states_in_uom hass node (Some binary_sensor) (Some [''on'', ''off'']))
       (\<lambda>hass. (Inr False, hass)))))"

text \<open>The default cascade at the end of the loop body.\<close>

definition default_cascade :: "nodes \<Rightarrow> node \<Rightarrow> bool result" where
  "default_cascade hass node =
     or_else (check_for_node_def hass node None) (\<lambda>hass.
     or_else (check_for_insteon_type hass node None) (\<lambda>hass.
     or_else (check_for_zwave_cat hass node None) (\<lambda>hass.
     or_else (check_for_uom_id hass node None None) (\<lambda>hass.
     or_else (check_for_states_in_uom hass node None None)
       (\<lambda>hass. (Inr False, hass))))))"

text \<open>
  One pass of the body of the \<^verbatim>\<open>for (path, node) in nodes\<close> loop.  The body has no value:
  the result is \<open>()\<close> or the exception that leaves it.
\<close>

definition categorize_node :: "nodes \<Rightarrow> string \<Rightarrow> node \<Rightarrow> string \<Rightarrow> string \<Rightarrow> unit result" where
  "categorize_node hass path node ignore_identifier sensor_identifier =
     (if str_in ignore_identifier path \<or> str_in ignore_identifier (name node)
      then (Inr (), hass)
      else if is_group node
      then (Inr (), append_node hass SCENE_DOMAIN node)
      else if str_in sensor_identifier path \<or> str_in sensor_identifier (name node)
      then (case is_sensor_a_binary_sensor hass node of
              (Inl e, hass') \<Rightarrow> (Inl e, hass')
            | (Inr True, hass') \<Rightarrow> (Inr (), hass')
            | (Inr False, hass') \<Rightarrow> (Inr (), append_node hass' sensor node))
      else (case default_cascade hass node of
              (Inl e, hass') \<Rightarrow> (Inl e, hass')
            | (Inr _, hass') \<Rightarrow> (Inr (), hass')))"

fun categorize_nodes :: "nodes \<Rightarrow> (string \<times> node) list \<Rightarrow> string \<Rightarrow> string \<Rightarrow> unit result" where
  "categorize_nodes hass [] ignore_identifier sensor_identifier = (Inr (), hass)"
| "categorize_nodes hass ((path, node) # nodes) ignore_identifier sensor_identifier =
     (case categorize_node hass path node ignore_identifier sensor_identifier of
        (Inl e, hass') \<Rightarrow> (Inl e, hass')
      | (Inr _, hass') \<Rightarrow> categorize_nodes hass' nodes ignore_identifier sensor_identifier)"

section \<open>The program classifier\<close>

text \<open>
  The program directory of the controller library: every item has a kind (\<^verbatim>\<open>dtype\<close>, such as
  \<^verbatim>\<open>'folder'\<close> or \<^verbatim>\<open>'program'\<close>), a name, an id and, for a folder, its items.  \<open>children\<close>
  lists the direct items as (kind, name, id); subscripting looks an item up by id, then by
  name, and \<open>None\<close> is a key that is missing.
\<close>

datatype prog_item = ProgItem (dtype: string) (item_name: string) (item_id: string)
  (items: "prog_item list")

definition children :: "prog_item \<Rightarrow> (string \<times> string \<times> string) list" where
  "children folder = map (\<lambda>k. (dtype k, item_name k, item_id k)) (items folder)"

definition getitem :: "prog_item \<Rightarrow> string \<Rightarrow> prog_item option" where
  "getitem folder key =
     (case find (\<lambda>k. item_id k = key) (items folder) of
        Some k \<Rightarrow> Some k
      | None \<Rightarrow> find (\<lambda>k. item_name k = key) (items folder))"

text \<open>
  \<^verbatim>\<open>hass.data[ISY994_PROGRAMS]\<close> holds (name, status, actions) per category; the warnings of
  the logger are kept beside it, each with the folder name it is formatted with.
\<close>

type_synonym program_entity = "string \<times> prog_item \<times> prog_item option"

record programs_state =
  ISY994_PROGRAMS :: "domain \<Rightarrow> program_entity list"
  warnings :: "string list"

text \<open>
  The \<^verbatim>\<open>try\<close> block of the program classifier.  \<open>None\<close> is the \<^verbatim>\<open>except\<close> branch: a missing
  key (\<^verbatim>\<open>KeyError\<close>, or \<^verbatim>\<open>AttributeError\<close> on the attribute of a missing item) or a failed
  \<^verbatim>\<open>assert\<close>.
\<close>

definition load_status_actions :: "domain \<Rightarrow> prog_item \<Rightarrow> (prog_item \<times> prog_item option) option" where
  "load_status_actions domain entity_folder =
     (case getitem entity_folder KEY_STATUS of
        None \<Rightarrow> None
      | Some status \<Rightarrow>
          if dtype status \<noteq> ''program'' then None
          else if domain \<noteq> binary_sensor
          then (case getitem entity_folder KEY_ACTIONS of
                  None \<Rightarrow> None
                | Some actions \<Rightarrow>
                    if dtype actions \<noteq> ''program'' then None else Some (status, Some actions))
          else Some (status, None))"

text \<open>
  The loop over \<^verbatim>\<open>folder.children\<close>.  \<^verbatim>\<open>folder[node_id]\<close> stands outside the \<^verbatim>\<open>try\<close> block,
  so a missing id leaves the classifier with \<^verbatim>\<open>KeyError\<close>.
\<close>

fun folder_loop ::
  "programs_state \<Rightarrow> domain \<Rightarrow> prog_item \<Rightarrow> (string \<times> string \<times> string) list \<Rightarrow>
   (error + unit) \<times> programs_state" where
  "folder_loop hass domain folder [] = (Inr (), hass)"
| "folder_loop hass domain folder ((dt, _, node_id) # rest) =
     (if dt \<noteq> KEY_FOLDER then folder_loop hass domain folder rest
      else (case getitem folder node_id of
              None \<Rightarrow> (Inl KeyError, hass)
            | Some entity_folder \<Rightarrow>
                (case load_status_actions domain entity_folder of
                   None \<Rightarrow>
                     folder_loop (hass\<lparr>warnings := warnings hass @ [item_name entity_folder]\<rparr>)
                       domain folder rest
                 | Some (status, actions) \<Rightarrow>
                     folder_loop
                       (hass\<lparr>ISY994_PROGRAMS := (ISY994_PROGRAMS hass)
                          (domain := ISY994_PROGRAMS hass domain @
                             [(item_name entity_folder, status, actions)])\<rparr>)
                       domain folder rest)))"

text \<open>
  \<^verbatim>\<open>programs[KEY_MY_PROGRAMS]['HA.{}'.format(domain)]\<close> under \<^verbatim>\<open>except KeyError: pass\<close>.
\<close>

definition domain_folder :: "prog_item \<Rightarrow> domain \<Rightarrow> prog_item option" where
  "domain_folder programs domain =
     (case getitem programs KEY_MY_PROGRAMS of
        None \<Rightarrow> None
      | Some my_programs \<Rightarrow> getitem my_programs (''HA.'' @ domain_name domain))"

fun programs_loop ::
  "programs_state \<Rightarrow> prog_item \<Rightarrow> domain list \<Rightarrow> (error + unit) \<times> programs_state" where
  "programs_loop hass programs [] = (Inr (), hass)"
| "programs_loop hass programs (domain # domains) =
     (case domain_folder programs domain of
        None \<Rightarrow> programs_loop hass programs domains
      | Some folder \<Rightarrow>
          (case folder_loop hass domain folder (children folder) of
             (Inl e, hass') \<Rightarrow> (Inl e, hass')
           | (Inr _, hass') \<Rightarrow> programs_loop hass' programs domains))"

definition categorize_programs ::
  "programs_state \<Rightarrow> prog_item \<Rightarrow> (error + unit) \<times> programs_state" where
  "categorize_programs hass programs = programs_loop hass programs SUPPORTED_PROGRAM_DOMAINS"

section \<open>The variable classifier\<close>

text \<open>
  A descriptor of the validated configuration: \<^verbatim>\<open>CONF_ID\<close> and \<^verbatim>\<open>CONF_TYPE\<close> are required
  keys, the display name is optional.
\<close>

record isy_var =
  CONF_ID :: int
  CONF_TYPE :: int
  CONF_NAME :: "string option"

text \<open>
  \<^verbatim>\<open>variables[vtype]\<close>, the directory of one variable type: its \<open>children\<close> as
  (kind, name, id), where a name may be \<^verbatim>\<open>None\<close>, and the handle \<^verbatim>\<open>variables[vtype][vid]\<close>.
  A type the directory does not have is a missing key.
\<close>

record 'h var_dir =
  var_children :: "(string \<times> string option \<times> int) list"
  var_item :: "int \<Rightarrow> 'h"

text \<open>
  \<^verbatim>\<open>hass.data[ISY994_VARIABLES]\<close>, and beside it the calls of \<^verbatim>\<open>_LOGGER.error\<close>, each with
  the (type, id) it is formatted with.
\<close>

record 'h variables_state =
  ISY994_VARIABLES :: "domain \<Rightarrow> (isy_var \<times> string \<times> 'h) list"
  errors :: "(int \<times> int) list"

text \<open>
  The loop over \<^verbatim>\<open>domain_cfg\<close>.  \<^verbatim>\<open>next(..., None)\<close> is \<open>find\<close>; its result is unpacked
  into three names at once, which raises \<^verbatim>\<open>TypeError\<close> when it is \<^verbatim>\<open>None\<close>.
\<close>

fun variables_loop ::
  "'h variables_state \<Rightarrow> (int \<Rightarrow> 'h var_dir option) \<Rightarrow> isy_var list \<Rightarrow> domain \<Rightarrow>
   (error + unit) \<times> 'h variables_state" where
  "variables_loop hass variables [] domain = (Inr (), hass)"
| "variables_loop hass variables (isy_var # rest) domain =
     (let vid = CONF_ID isy_var; vtype = CONF_TYPE isy_var in
      case variables vtype of
        None \<Rightarrow> (Inl KeyError, hass)
      | Some directory \<Rightarrow>
          (case find (\<lambda>var. snd (snd var) = vid) (var_children directory) of
             None \<Rightarrow> (Inl TypeError, hass)
           | Some (_, vname, _) \<Rightarrow>
               (case vname of
                  None \<Rightarrow>
                    variables_loop (hass\<lparr>errors := errors hass @ [(vtype, vid)]\<rparr>)
                      variables rest domain
                | Some vname' \<Rightarrow>
                    variables_loop
                      (hass\<lparr>ISY994_VARIABLES := (ISY994_VARIABLES hass)
                         (domain := ISY994_VARIABLES hass domain @
                            [(isy_var, vname', var_item directory vid)])\<rparr>)
                      variables rest domain)))"

definition categorize_variables ::
  "'h variables_state \<Rightarrow> (int \<Rightarrow> 'h var_dir option) \<Rightarrow> isy_var list option \<Rightarrow> domain \<Rightarrow>
   (error + unit) \<times> 'h variables_state" where
  "categorize_variables hass variables domain_cfg domain =
     (case domain_cfg of
        None \<Rightarrow> (Inr (), hass)
      | Some cfg \<Rightarrow> variables_loop hass variables cfg domain)"

section \<open>The weather classifier\<close>

text \<open>
  The climate object (\<open>weather\<close> below, as \<open>climate\<close> names a category) is given by its attributes: the names in the order \<^verbatim>\<open>dir\<close> lists them,
  each with the value \<^verbatim>\<open>getattr\<close> reads.  Reading a name that is not an attribute raises
  \<^verbatim>\<open>AttributeError\<close>.
\<close>

type_synonym 'v climate_obj = "(string \<times> 'v) list"

datatype 'v weather_node = WeatherNode (status: 'v) (label: string) (units: 'v)

definition dir :: "'v climate_obj \<Rightarrow> string list" where
  "dir weather = map fst weather"

definition getattr :: "'v climate_obj \<Rightarrow> string \<Rightarrow> error + 'v" where
  "getattr weather attr =
     (case map_of weather attr of None \<Rightarrow> Inl AttributeError | Some v \<Rightarrow> Inr v)"

text \<open>\<^verbatim>\<open>attr.replace('_', ' ')\<close> and \<^verbatim>\<open>'{}_units'.format(attr)\<close>\<close>

definition replace_underscores :: "string \<Rightarrow> string" where
  "replace_underscores attr = map (\<lambda>c. if c = CHR ''_'' then CHR '' '' else c) attr"

definition units_attr :: "string \<Rightarrow> string" where
  "units_attr attr = attr @ ''_units''"

text \<open>The list comprehension, over the attribute names that remain.\<close>

fun weather_nodes :: "'v climate_obj \<Rightarrow> string list \<Rightarrow> error + 'v weather_node list" where
  "weather_nodes weather [] = Inr []"
| "weather_nodes weather (attr # attrs) =
     (if units_attr attr \<in> set (dir weather)
      then (case getattr weather attr of
              Inl e \<Rightarrow> Inl e
            | Inr st \<Rightarrow>
                (case getattr weather (units_attr attr) of
                   Inl e \<Rightarrow> Inl e
                 | Inr u \<Rightarrow>
                     (case weather_nodes weather attrs of
                        Inl e \<Rightarrow> Inl e
                      | Inr ws \<Rightarrow> Inr (WeatherNode st (replace_underscores attr) u # ws))))
      else weather_nodes weather attrs)"

text \<open>\<^verbatim>\<open>hass.data[ISY994_WEATHER].extend(weather_nodes)\<close>\<close>

definition categorize_weather ::
  "'v weather_node list \<Rightarrow> 'v climate_obj \<Rightarrow> (error + unit) \<times> 'v weather_node list" where
  "categorize_weather hass weather =
     (case weather_nodes weather (dir weather) of
        Inl e \<Rightarrow> (Inl e, hass)
      | Inr ws \<Rightarrow> (Inr (), hass @ ws))"

section \<open>Outcomes\<close>

text \<open>
  What a matcher can leave behind, started on the buckets \<open>hass\<close> with \<open>node\<close>: an exception
  or a miss with the buckets untouched, or a match with the node appended to one bucket.
\<close>

definition outcome :: "nodes \<Rightarrow> node \<Rightarrow> bool result \<Rightarrow> bool" where
  "outcome hass node r \<longleftrightarrow>
     (\<exists>e. r = (Inl e, hass)) \<or> r = (Inr False, hass)
     \<or> (\<exists>d. r = (Inr True, append_node hass d node))"

section \<open>The forced-sensor rule, in the words of the specification\<close>

text \<open>
  When a sensor-marked node counts as a binary sensor: its firmware id or its protocol type
  matches the \<open>binary_sensor\<close> rule, or its unit of measure meets the override codes 2 and
  78, or its unit of measure is exactly the set of the tokens on and off.
\<close>

definition spec_binary_sensor :: "node \<Rightarrow> bool" where
  "spec_binary_sensor node \<longleftrightarrow>
     (case node_def_id node of
        None \<Rightarrow> False
      | Some ndi \<Rightarrow> ndi \<in> set (NODE_FILTERS binary_sensor NODE_DEF_ID))
     \<or> (case type node of
          None \<Rightarrow> False
        | Some t \<Rightarrow> list_ex (startswith t) (NODE_FILTERS binary_sensor INSTEON_TYPE))
     \<or> (case uom node of
          None \<Rightarrow> False
        | Some u \<Rightarrow> set (map lower u) \<inter> set [''2'', ''78''] \<noteq> {}
                    \<or> set (map lower u) = set [''on'', ''off''])"

section \<open>Malformed program folders, in the words of the specification\<close>




section \<open>Nodes on which the address is read\<close>

text \<open>
  The firmware matcher, testing all categories, finds the node's definition id in some
  list of the rule table.
\<close>

definition firmware_listed :: "node \<Rightarrow> bool" where
  "firmware_listed node \<longleftrightarrow>
     (case node_def_id node of
        None \<Rightarrow> False
      | Some ndi \<Rightarrow> list_ex (\<lambda>d. ndi \<in> set (NODE_FILTERS d NODE_DEF_ID)) SUPPORTED_DOMAINS)"

text \<open>
  The type of the node starts with the prefix of the fan category or with the prefix of
  the climate category.
\<close>

definition fan_or_climate_type :: "node \<Rightarrow> bool" where
  "fan_or_climate_type node \<longleftrightarrow>
     (case type node of
        None \<Rightarrow> False
      | Some t \<Rightarrow> startswith t ''1.46.'' \<or> startswith t ''5.'')"

text \<open>
  The pass over (path, node) gets as far as \<^verbatim>\<open>int(node.nid[-1])\<close>: the node is not ignored,
  is not a group, does not carry the sensor marker, is not placed by the firmware matcher,
  and has a type of the fan or the climate prefix.
\<close>

definition reads_address :: "string \<Rightarrow> node \<Rightarrow> string \<Rightarrow> string \<Rightarrow> bool" where
  "reads_address path node ignore_identifier sensor_identifier \<longleftrightarrow>
     \<not> (str_in ignore_identifier path \<or> str_in ignore_identifier (name node))
     \<and> \<not> is_group node
     \<and> \<not> (str_in sensor_identifier path \<or> str_in sensor_identifier (name node))
     \<and> \<not> firmware_listed node
     \<and> fan_or_climate_type node"

section \<open>The ignore marker\<close>

text \<open>
  C4.  A node whose path or name contains the ignore marker is put in no bucket and no
  matcher runs on it: the pass over it returns normally with the buckets as they were,
  whatever else the node carries, and the loop goes on with the nodes after it.
\<close>

theorem ignored_node_is_dropped:
  assumes "str_in ignore_identifier path \<or> str_in ignore_identifier (name node)"
  shows "categorize_node hass path node ignore_identifier sensor_identifier = (Inr (), hass)
       \<and> categorize_nodes hass ((path, node) # rest) ignore_identifier sensor_identifier
           = categorize_nodes hass rest ignore_identifier sensor_identifier"
  using assms by (simp add: categorize_node_def)

text \<open>
  An ignored scene that also carries the sensor marker, and whose type and address would
  make the protocol-type matcher raise if it ran.
\<close>

theorem ignored_node_is_dropped_witness:
  "(str_in ''{IGNORE ME}'' ''folder/scene''
      \<or> str_in ''{IGNORE ME}''
           (name \<lparr>name = ''sensor {IGNORE ME}'', nid = ''x'', node_def_id = None,
              type = Some ''5.1'', devtype_cat = None, uom = None, is_group = True\<rparr>))
   \<and> categorize_node (\<lambda>_. []) ''folder/scene''
        \<lparr>name = ''sensor {IGNORE ME}'', nid = ''x'', node_def_id = None,
           type = Some ''5.1'', devtype_cat = None, uom = None, is_group = True\<rparr>
        ''{IGNORE ME}'' ''sensor''
      = (Inr (), \<lambda>_. [])"
proof -
  have h: "str_in ''{IGNORE ME}'' ''folder/scene''
      \<or> str_in ''{IGNORE ME}''
           (name \<lparr>name = ''sensor {IGNORE ME}'', nid = ''x'', node_def_id = None,
              type = Some ''5.1'', devtype_cat = None, uom = None, is_group = True\<rparr>)"
    by simp
  from ignored_node_is_dropped [OF h] h show ?thesis by blast
qed

section \<open>Unresolved variable descriptors\<close>

text \<open>
  A descriptor whose id is not among the children of its type makes \<open>find\<close> return
  \<open>None\<close>; unpacking that raises \<^verbatim>\<open>TypeError\<close> before the test \<^verbatim>\<open>vname is None\<close>, so
  nothing is logged and the descriptors after it are not reached.
\<close>

lemma unresolved_descriptor_raises:
  assumes "variables (CONF_TYPE isy_var) = Some directory"
    and "find (\<lambda>var. snd (snd var) = CONF_ID isy_var) (var_children directory) = None"
  shows "categorize_variables hass variables (Some (isy_var # rest)) domain = (Inl TypeError, hass)"
  using assms by (simp add: categorize_variables_def)

text \<open>
  C6.  The variable classifier is to log an error for a descriptor that does not resolve and
  go on with the others.  On the directory with the single variable (type 1, id 1, name a)
  and the descriptors (type 1, id 5), (type 1, id 1), the code raises \<^verbatim>\<open>TypeError\<close> at the
  first descriptor: no error is logged, and the second descriptor, which resolves, gets no
  entity.
\<close>

theorem unresolved_variable_raises_TypeError:
  "categorize_variables \<lparr>ISY994_VARIABLES = (\<lambda>_. []), errors = []\<rparr>
      (\<lambda>t. if t = 1
            then Some \<lparr>var_children = [(''integer'', Some ''a'', 1)], var_item = (\<lambda>i::int. i)\<rparr>
            else None)
      (Some [\<lparr>CONF_ID = 5, CONF_TYPE = 1, CONF_NAME = None\<rparr>,
             \<lparr>CONF_ID = 1, CONF_TYPE = 1, CONF_NAME = None\<rparr>])
      sensor
   = (Inl TypeError, \<lparr>ISY994_VARIABLES = (\<lambda>_. []), errors = []\<rparr>)"
  by (simp add: categorize_variables_def)

section \<open>At most one bucket per node\<close>

lemma node_def_loop_outcome: "outcome hass node (node_def_loop hass node ndi ds)"
  by (induction ds) (auto simp: outcome_def)

lemma insteon_type_loop_outcome: "outcome hass node (insteon_type_loop hass node t ds)"
  by (induction ds) (auto simp: outcome_def split: sum.splits bool.splits)

lemma zwave_cat_loop_outcome: "outcome hass node (zwave_cat_loop hass node t ds)"
  by (induction ds) (auto simp: outcome_def)

lemma uom_id_loop_outcome: "outcome hass node (uom_id_loop hass node u ds)"
  by (induction ds) (auto simp: outcome_def)

lemma states_in_uom_loop_outcome: "outcome hass node (states_in_uom_loop hass node u ds)"
  by (induction ds) (auto simp: outcome_def)

lemma append_single_outcome: "outcome hass node (append_single hass sd node)"
  by (auto simp: outcome_def append_single_def split: option.splits)

lemma outcome_False: "outcome hass node (Inr False, hass)"
  by (simp add: outcome_def)

lemma check_for_node_def_outcome: "outcome hass node (check_for_node_def hass node sd)"
  by (simp add: check_for_node_def_def node_def_loop_outcome outcome_False
      split: option.splits)

lemma check_for_insteon_type_outcome:
  "outcome hass node (check_for_insteon_type hass node sd)"
  by (simp add: check_for_insteon_type_def insteon_type_loop_outcome outcome_False
      split: option.splits)

lemma check_for_zwave_cat_outcome: "outcome hass node (check_for_zwave_cat hass node sd)"
  by (simp add: check_for_zwave_cat_def zwave_cat_loop_outcome outcome_False
      split: option.splits)

lemma check_for_uom_id_outcome: "outcome hass node (check_for_uom_id hass node sd ul)"
  by (simp add: check_for_uom_id_def Let_def uom_id_loop_outcome append_single_outcome
      outcome_False split: option.splits)

lemma check_for_states_in_uom_outcome:
  "outcome hass node (check_for_states_in_uom hass node sd sl)"
  by (simp add: check_for_states_in_uom_def Let_def states_in_uom_loop_outcome
      append_single_outcome outcome_False split: option.splits)

text \<open>A sequence of checks appends at most once: the rest only runs after a miss.\<close>

lemma or_else_outcome:
  "outcome hass node r \<Longrightarrow> outcome hass node (rest hass) \<Longrightarrow>
   outcome hass node (or_else r rest)"
  by (auto simp: outcome_def or_else_def)

lemma is_sensor_a_binary_sensor_outcome:
  "outcome hass node (is_sensor_a_binary_sensor hass node)"
  unfolding is_sensor_a_binary_sensor_def
  by (intro or_else_outcome check_for_node_def_outcome check_for_insteon_type_outcome
      check_for_uom_id_outcome check_for_states_in_uom_outcome outcome_False)

lemma default_cascade_outcome: "outcome hass node (default_cascade hass node)"
  unfolding default_cascade_def
  by (intro or_else_outcome check_for_node_def_outcome check_for_insteon_type_outcome
      check_for_zwave_cat_outcome check_for_uom_id_outcome check_for_states_in_uom_outcome
      outcome_False)

lemma append_node_neq: "append_node hass d node \<noteq> hass"
  by (auto simp: append_node_def fun_eq_iff)

lemma append_node_inj: "append_node hass d node = append_node hass d' node \<Longrightarrow> d = d'"
  by (auto simp: append_node_def fun_eq_iff split: if_splits)

lemma categorize_node_buckets:
  "snd (categorize_node hass path node ign sens) = hass
   \<or> (\<exists>d. snd (categorize_node hass path node ign sens) = append_node hass d node)"
  using is_sensor_a_binary_sensor_outcome [of hass node] default_cascade_outcome [of hass node]
  by (auto simp: categorize_node_def outcome_def split: prod.splits sum.splits bool.splits)

text \<open>
  C1.  One pass of the classifier over a (path, node) pair, whatever it returns or raises,
  leaves the buckets in exactly one of two ways: as they were (the node is dropped), or
  with the node appended to exactly one category bucket.  It never appends the node to
  two buckets.
\<close>

theorem one_bucket_or_dropped:
  "(snd (categorize_node hass path node ign sens) = hass
      \<and> \<not> (\<exists>d. snd (categorize_node hass path node ign sens) = append_node hass d node))
   \<or> (snd (categorize_node hass path node ign sens) \<noteq> hass
      \<and> (\<exists>!d. snd (categorize_node hass path node ign sens) = append_node hass d node))"
  using categorize_node_buckets [of hass path node ign sens]
  by (metis append_node_neq append_node_inj)

text \<open>A dimmer that only its protocol type identifies lands in one bucket.\<close>

theorem one_bucket_or_dropped_witness:
  "\<exists>!d. snd (categorize_node (\<lambda>_. []) ''hall''
            \<lparr>name = ''lamp'', nid = ''1A 2B 3C 1'', node_def_id = None,
               type = Some ''1.32.65.0'', devtype_cat = None, uom = None, is_group = False\<rparr>
            ''{IGNORE ME}'' ''sensor'')
        = append_node (\<lambda>_. []) d
            \<lparr>name = ''lamp'', nid = ''1A 2B 3C 1'', node_def_id = None,
               type = Some ''1.32.65.0'', devtype_cat = None, uom = None, is_group = False\<rparr>"
proof -
  have "snd (categorize_node (\<lambda>_. []) ''hall''
            \<lparr>name = ''lamp'', nid = ''1A 2B 3C 1'', node_def_id = None,
               type = Some ''1.32.65.0'', devtype_cat = None, uom = None, is_group = False\<rparr>
            ''{IGNORE ME}'' ''sensor'') \<noteq> (\<lambda>_. [])"
    by (simp add: categorize_node_def default_cascade_def or_else_def check_for_node_def_def
        check_for_insteon_type_def domains_for_def SUPPORTED_DOMAINS_def fan_special_case_def
        climate_special_case_def append_node_def fun_eq_iff)
  with one_bucket_or_dropped [of "\<lambda>_. []" "''hall''"
      "\<lparr>name = ''lamp'', nid = ''1A 2B 3C 1'', node_def_id = None,
         type = Some ''1.32.65.0'', devtype_cat = None, uom = None, is_group = False\<rparr>"
      "''{IGNORE ME}''" "''sensor''"]
  show ?thesis by blast
qed

section \<open>The redirections of the protocol-type matcher\<close>

lemma startswith_Cons:
  "startswith s (p # ps) \<longleftrightarrow> (\<exists>s'. s = p # s' \<and> startswith s' ps)"
  by (cases s) auto

lemma fan_prefix: "startswith t ''1.46.'' \<Longrightarrow> \<exists>r. t = ''1.46.'' @ r"
  by (auto simp: startswith_Cons)

lemma climate_prefix: "startswith t ''5.'' \<Longrightarrow> \<exists>r. t = ''5.'' @ r"
  by (auto simp: startswith_Cons)







section \<open>Exceptions of the node classifier\<close>

lemma node_def_loop_no_raise: "\<not> isl (fst (node_def_loop hass node ndi ds))"
  by (induction ds) auto

lemma zwave_cat_loop_no_raise: "\<not> isl (fst (zwave_cat_loop hass node t ds))"
  by (induction ds) auto

lemma uom_id_loop_no_raise: "\<not> isl (fst (uom_id_loop hass node u ds))"
  by (induction ds) auto

lemma states_in_uom_loop_no_raise: "\<not> isl (fst (states_in_uom_loop hass node u ds))"
  by (induction ds) auto

text \<open>Restricted to \<open>binary_sensor\<close>, neither special case reads the address.\<close>

lemma insteon_type_loop_binary_sensor_no_raise:
  "\<not> isl (fst (insteon_type_loop hass node t [binary_sensor]))"
  by (simp add: fan_special_case_def climate_special_case_def split: bool.splits)

lemma check_for_node_def_no_raise: "\<not> isl (fst (check_for_node_def hass node sd))"
  by (simp add: check_for_node_def_def node_def_loop_no_raise split: option.splits)

lemma check_for_zwave_cat_no_raise: "\<not> isl (fst (check_for_zwave_cat hass node sd))"
  by (simp add: check_for_zwave_cat_def zwave_cat_loop_no_raise split: option.splits)

lemma check_for_uom_id_no_raise:
  "sd \<noteq> None \<or> list_or_empty ul = [] \<Longrightarrow> \<not> isl (fst (check_for_uom_id hass node sd ul))"
  by (auto simp: check_for_uom_id_def Let_def uom_id_loop_no_raise append_single_def
      split: option.splits)

lemma check_for_states_in_uom_no_raise:
  "sd \<noteq> None \<or> list_or_empty sl = [] \<Longrightarrow>
   \<not> isl (fst (check_for_states_in_uom hass node sd sl))"
  by (auto simp: check_for_states_in_uom_def Let_def states_in_uom_loop_no_raise
      append_single_def split: option.splits)

lemma check_for_insteon_type_binary_sensor_no_raise:
  "\<not> isl (fst (check_for_insteon_type hass node (Some binary_sensor)))"
  using insteon_type_loop_binary_sensor_no_raise
  by (simp add: check_for_insteon_type_def domains_for_def split: option.splits)

lemma or_else_no_raise:
  "\<not> isl (fst r) \<Longrightarrow> (\<And>h. \<not> isl (fst (rest h))) \<Longrightarrow> \<not> isl (fst (or_else r rest))"
  by (auto simp: or_else_def split: prod.splits sum.splits bool.splits)

lemma is_sensor_a_binary_sensor_no_raise:
  "\<not> isl (fst (is_sensor_a_binary_sensor hass node))"
  unfolding is_sensor_a_binary_sensor_def
  by (intro or_else_no_raise check_for_node_def_no_raise
      check_for_insteon_type_binary_sensor_no_raise check_for_uom_id_no_raise
      check_for_states_in_uom_no_raise) simp_all

lemma no_raise_iff: "\<not> isl (fst r) \<longleftrightarrow> (\<exists>v h. r = (Inr v, h))"
  by (cases r; cases "fst r") auto

section \<open>Priority of the firmware matcher\<close>


lemma or_else_True: "or_else (Inr True, h) rest = (Inr True, h)"
  by (simp add: or_else_def)

lemma or_else_False: "or_else (Inr False, h) rest = rest h"
  by (simp add: or_else_def)



section \<open>The sensor marker\<close>

lemma is_sensor_a_binary_sensor_spec:
  "is_sensor_a_binary_sensor hass node =
     (if spec_binary_sensor node then (Inr True, append_node hass binary_sensor node)
      else (Inr False, hass))"
  by (simp add: is_sensor_a_binary_sensor_def spec_binary_sensor_def or_else_def
      check_for_node_def_def check_for_insteon_type_def check_for_uom_id_def
      check_for_states_in_uom_def domains_for_def list_or_empty_def append_single_def
      fan_special_case_def climate_special_case_def Let_def split: option.splits)




section \<open>The order in which categories are tried\<close>

text \<open>Each loop over the categories stops at the first one whose rule matches.\<close>

lemma node_def_loop_find:
  "node_def_loop hass node ndi ds =
     (case find (\<lambda>d. ndi \<in> set (NODE_FILTERS d NODE_DEF_ID)) ds of
        None \<Rightarrow> (Inr False, hass)
      | Some d \<Rightarrow> (Inr True, append_node hass d node))"
  by (induction ds) simp_all




lemma insteon_type_loop_find:
  "insteon_type_loop hass node t ds =
     (case find (\<lambda>d. list_ex (startswith t) (NODE_FILTERS d INSTEON_TYPE)) ds of
        None \<Rightarrow> (Inr False, hass)
      | Some d \<Rightarrow>
          (case fan_special_case d node of
             Inl e \<Rightarrow> (Inl e, hass)
           | Inr True \<Rightarrow> (Inr True, append_node hass light node)
           | Inr False \<Rightarrow>
               (case climate_special_case d node of
                  Inl e \<Rightarrow> (Inl e, hass)
                | Inr True \<Rightarrow> (Inr True, append_node hass binary_sensor node)
                | Inr False \<Rightarrow> (Inr True, append_node hass d node))))"
  by (induction ds) simp_all






section \<open>Weather entries\<close>

lemma getattr_dir:
  "attr \<in> set (dir weather) \<Longrightarrow> \<exists>v. getattr weather attr = Inr v"
proof -
  assume "attr \<in> set (dir weather)"
  then have "map_of weather attr \<noteq> None"
    by (simp add: dir_def map_of_eq_None_iff)
  then show ?thesis
    by (auto simp: getattr_def)
qed

text \<open>
  The comprehension never raises: it reads only names that \<^verbatim>\<open>dir\<close> lists.  Its result has
  one entry for each listed name whose units name is an attribute too, in the same order.
\<close>

lemma weather_nodes_paired:
  assumes "set attrs \<subseteq> set (dir weather)"
  shows "\<exists>ws. weather_nodes weather attrs = Inr ws
           \<and> list_all2
               (\<lambda>attr e. getattr weather attr = Inr (status e)
                  \<and> label e = replace_underscores attr
                  \<and> getattr weather (units_attr attr) = Inr (units e))
               (filter (\<lambda>attr. units_attr attr \<in> set (dir weather)) attrs) ws"
  using assms
proof (induction attrs)
  case Nil
  then show ?case by simp
next
  case (Cons attr attrs)
  then obtain ws where ws: "weather_nodes weather attrs = Inr ws"
    and rel: "list_all2
               (\<lambda>attr e. getattr weather attr = Inr (status e)
                  \<and> label e = replace_underscores attr
                  \<and> getattr weather (units_attr attr) = Inr (units e))
               (filter (\<lambda>attr. units_attr attr \<in> set (dir weather)) attrs) ws"
    by auto
  show ?case
  proof (cases "units_attr attr \<in> set (dir weather)")
    case False
    with ws rel show ?thesis by simp
  next
    case True
    from Cons.prems obtain st where st: "getattr weather attr = Inr st"
      using getattr_dir [of attr weather] by auto
    from True obtain u where u: "getattr weather (units_attr attr) = Inr u"
      using getattr_dir [of "units_attr attr" weather] by auto
    from True ws rel st u show ?thesis by simp
  qed
qed

lemma length_filter_card:
  "distinct xs \<Longrightarrow> length (filter P xs) = card {x \<in> set xs. P x}"
  by (metis distinct_card distinct_filter set_filter)

text \<open>
  C9.  The weather classifier returns normally and extends the weather list by exactly one
  entry for each attribute \<open>X\<close> of the object for which \<open>X_units\<close> is an attribute too, with the
  value of \<open>X\<close>, the name of \<open>X\<close> with blanks for underscores, and the value of \<open>X_units\<close>;
  an attribute without such a sibling gets no entry.  As \<^verbatim>\<open>dir\<close> lists every attribute
  once, the number of entries is the number of such attributes.  An object with the
  attributes humidity, temperature and temperature_units yields the one entry for
  temperature.
\<close>

theorem weather_entries_are_paired_attributes:
  "(\<exists>ws. categorize_weather hass weather = (Inr (), hass @ ws)
      \<and> list_all2
          (\<lambda>attr e. getattr weather attr = Inr (status e)
             \<and> label e = replace_underscores attr
             \<and> getattr weather (units_attr attr) = Inr (units e))
          (filter (\<lambda>attr. units_attr attr \<in> set (dir weather)) (dir weather)) ws
      \<and> (distinct (dir weather) \<longrightarrow>
           length ws = card {attr \<in> set (dir weather). units_attr attr \<in> set (dir weather)}))
   \<and> categorize_weather []
        [(''humidity'', h), (''temperature'', t), (''temperature_units'', u)]
      = (Inr (), [WeatherNode t ''temperature'' u])"
proof (intro conjI)
  obtain ws where ws: "weather_nodes weather (dir weather) = Inr ws"
    and rel: "list_all2
          (\<lambda>attr e. getattr weather attr = Inr (status e)
             \<and> label e = replace_underscores attr
             \<and> getattr weather (units_attr attr) = Inr (units e))
          (filter (\<lambda>attr. units_attr attr \<in> set (dir weather)) (dir weather)) ws"
    using weather_nodes_paired [of "dir weather" weather] by auto
  have "distinct (dir weather) \<longrightarrow>
          length ws = card {attr \<in> set (dir weather). units_attr attr \<in> set (dir weather)}"
  proof
    assume "distinct (dir weather)"
    then have "length (filter (\<lambda>attr. units_attr attr \<in> set (dir weather)) (dir weather))
               = card {attr \<in> set (dir weather). units_attr attr \<in> set (dir weather)}"
      by (rule length_filter_card)
    with list_all2_lengthD [OF rel]
    show "length ws = card {attr \<in> set (dir weather). units_attr attr \<in> set (dir weather)}"
      by simp
  qed
  with ws rel
  show "\<exists>ws. categorize_weather hass weather = (Inr (), hass @ ws)
      \<and> list_all2
          (\<lambda>attr e. getattr weather attr = Inr (status e)
             \<and> label e = replace_underscores attr
             \<and> getattr weather (units_attr attr) = Inr (units e))
          (filter (\<lambda>attr. units_attr attr \<in> set (dir weather)) (dir weather)) ws
      \<and> (distinct (dir weather) \<longrightarrow>
           length ws = card {attr \<in> set (dir weather). units_attr attr \<in> set (dir weather)})"
    by (simp add: categorize_weather_def)
next
  show "categorize_weather []
        [(''humidity'', h), (''temperature'', t), (''temperature_units'', u)]
      = (Inr (), [WeatherNode t ''temperature'' u])"
    by (simp add: categorize_weather_def dir_def getattr_def units_attr_def
        replace_underscores_def)
qed

text \<open>An object with two measurements and their units, and one attribute without units.\<close>

theorem weather_entries_are_paired_attributes_witness:
  "\<exists>ws. categorize_weather []
           [(''humidity'', 40), (''pressure'', 1013), (''pressure_units'', 0),
            (''temperature'', 21), (''temperature_units'', 1 :: int)]
         = (Inr (), ws) \<and> length ws = 2"
proof -
  let ?w = "[(''humidity'', 40), (''pressure'', 1013), (''pressure_units'', 0),
            (''temperature'', 21), (''temperature_units'', 1 :: int)]"
  from weather_entries_are_paired_attributes [of "[]" ?w]
  have "\<exists>ws. categorize_weather [] ?w = (Inr (), [] @ ws)
      \<and> list_all2
          (\<lambda>attr e. getattr ?w attr = Inr (status e)
             \<and> label e = replace_underscores attr
             \<and> getattr ?w (units_attr attr) = Inr (units e))
          (filter (\<lambda>attr. units_attr attr \<in> set (dir ?w)) (dir ?w)) ws
      \<and> (distinct (dir ?w) \<longrightarrow>
           length ws = card {attr \<in> set (dir ?w). units_attr attr \<in> set (dir ?w)})"
    by (rule conjunct1)
  then obtain ws where a: "categorize_weather [] ?w = (Inr (), [] @ ws)"
    and b: "list_all2
          (\<lambda>attr e. getattr ?w attr = Inr (status e)
             \<and> label e = replace_underscores attr
             \<and> getattr ?w (units_attr attr) = Inr (units e))
          (filter (\<lambda>attr. units_attr attr \<in> set (dir ?w)) (dir ?w)) ws"
    by (elim exE conjE)
  from list_all2_lengthD [OF b] have "length ws = 2"
    by (simp add: dir_def units_attr_def)
  with a show ?thesis by simp
qed

section \<open>Malformed program folders\<close>








section \<open>When the node classifier raises\<close>

lemma find_Some_holds: "find P xs = Some x \<Longrightarrow> P x"
  by (induction xs) (auto split: if_splits)

lemma find_fan:
  assumes "startswith t ''1.46.''"
  shows "find (\<lambda>d. list_ex (startswith t) (NODE_FILTERS d INSTEON_TYPE)) SUPPORTED_DOMAINS
         = Some fan"
proof -
  from assms obtain r where t: "t = ''1.46.'' @ r" using fan_prefix by blast
  show ?thesis by (simp add: t SUPPORTED_DOMAINS_def)
qed

lemma find_climate:
  assumes "startswith t ''5.''"
  shows "find (\<lambda>d. list_ex (startswith t) (NODE_FILTERS d INSTEON_TYPE)) SUPPORTED_DOMAINS
         = Some climate"
proof -
  from assms obtain r where t: "t = ''5.'' @ r" using climate_prefix by blast
  show ?thesis by (simp add: t SUPPORTED_DOMAINS_def)
qed

text \<open>The first category that matches a type is fan or climate exactly for the two prefixes.\<close>

lemma first_match_fan_or_climate:
  "(case find (\<lambda>d. list_ex (startswith t) (NODE_FILTERS d INSTEON_TYPE)) SUPPORTED_DOMAINS of
      None \<Rightarrow> False
    | Some d \<Rightarrow> d = fan \<or> d = climate)
   \<longleftrightarrow> startswith t ''1.46.'' \<or> startswith t ''5.''"
proof
  assume "startswith t ''1.46.'' \<or> startswith t ''5.''"
  then show "case find (\<lambda>d. list_ex (startswith t) (NODE_FILTERS d INSTEON_TYPE))
                    SUPPORTED_DOMAINS of
               None \<Rightarrow> False
             | Some d \<Rightarrow> d = fan \<or> d = climate"
    using find_fan [of t] find_climate [of t] by auto
next
  assume a: "case find (\<lambda>d. list_ex (startswith t) (NODE_FILTERS d INSTEON_TYPE))
                    SUPPORTED_DOMAINS of
               None \<Rightarrow> False
             | Some d \<Rightarrow> d = fan \<or> d = climate"
  then obtain d where d: "find (\<lambda>d. list_ex (startswith t) (NODE_FILTERS d INSTEON_TYPE))
                            SUPPORTED_DOMAINS = Some d"
    and fc: "d = fan \<or> d = climate"
    by (auto split: option.splits)
  from find_Some_holds [OF d] have "list_ex (startswith t) (NODE_FILTERS d INSTEON_TYPE)" .
  with fc show "startswith t ''1.46.'' \<or> startswith t ''5.''"
    by auto
qed

text \<open>At a matching category, an exception comes from the address and from nothing else.\<close>

lemma special_cases_raise:
  "isl (fst (case fan_special_case d node of
               Inl e \<Rightarrow> (Inl e, hass)
             | Inr True \<Rightarrow> (Inr True, append_node hass light node)
             | Inr False \<Rightarrow>
                 (case climate_special_case d node of
                    Inl e \<Rightarrow> (Inl e, hass)
                  | Inr True \<Rightarrow> (Inr True, append_node hass binary_sensor node)
                  | Inr False \<Rightarrow> (Inr True, append_node hass d node))))
   \<longleftrightarrow> (d = fan \<or> d = climate) \<and> isl (int_of_last (nid node))"
  by (cases "int_of_last (nid node)")
    (simp_all add: fan_special_case_def climate_special_case_def split: bool.splits)

lemma check_for_insteon_type_raises:
  "isl (fst (check_for_insteon_type hass node None))
   \<longleftrightarrow> fan_or_climate_type node \<and> isl (int_of_last (nid node))"
proof (cases "type node")
  case None
  then show ?thesis
    by (simp add: check_for_insteon_type_def fan_or_climate_type_def)
next
  case (Some t)
  show ?thesis
  proof (cases "find (\<lambda>d. list_ex (startswith t) (NODE_FILTERS d INSTEON_TYPE))
                  SUPPORTED_DOMAINS")
    case None
    with first_match_fan_or_climate [of t] Some show ?thesis
      by (simp add: check_for_insteon_type_def fan_or_climate_type_def domains_for_def
          insteon_type_loop_find)
  next
    case (Some d)
    with first_match_fan_or_climate [of t] \<open>type node = Some t\<close> show ?thesis
      by (simp add: check_for_insteon_type_def fan_or_climate_type_def domains_for_def
          insteon_type_loop_find special_cases_raise)
  qed
qed

lemma check_for_node_def_unlisted:
  assumes "\<not> firmware_listed node"
  shows "check_for_node_def hass node None = (Inr False, hass)"
proof (cases "node_def_id node")
  case None
  then show ?thesis by (simp add: check_for_node_def_def)
next
  case (Some ndi)
  with assms
  have "find (\<lambda>d. ndi \<in> set (NODE_FILTERS d NODE_DEF_ID)) SUPPORTED_DOMAINS = None"
    by (auto simp: firmware_listed_def find_None_iff list_ex_iff)
  with Some show ?thesis
    by (simp add: check_for_node_def_def domains_for_def node_def_loop_find)
qed

lemma check_for_node_def_listed:
  assumes "firmware_listed node"
  shows "\<exists>h. check_for_node_def hass node None = (Inr True, h)"
proof -
  from assms obtain ndi where ndi: "node_def_id node = Some ndi"
    and ex: "list_ex (\<lambda>d. ndi \<in> set (NODE_FILTERS d NODE_DEF_ID)) SUPPORTED_DOMAINS"
    by (auto simp: firmware_listed_def split: option.splits)
  from ex have "find (\<lambda>d. ndi \<in> set (NODE_FILTERS d NODE_DEF_ID)) SUPPORTED_DOMAINS \<noteq> None"
    by (auto simp: find_None_iff list_ex_iff)
  with ndi show ?thesis
    by (auto simp: check_for_node_def_def domains_for_def node_def_loop_find)
qed

text \<open>A sequence of checks raises when its first check does, or misses and the rest raises.\<close>

lemma or_else_raises:
  "isl (fst (or_else r rest))
   \<longleftrightarrow> isl (fst r) \<or> (fst r = Inr False \<and> isl (fst (rest (snd r))))"
  by (auto simp: or_else_def split: prod.splits sum.splits bool.splits)

text \<open>The checks of the default cascade after the protocol-type matcher never raise.\<close>

lemma cascade_tail_no_raise:
  "\<not> isl (fst (or_else (check_for_zwave_cat h node None) (\<lambda>hass.
            or_else (check_for_uom_id hass node None None) (\<lambda>hass.
            or_else (check_for_states_in_uom hass node None None)
              (\<lambda>hass. (Inr False, hass))))))"
  by (intro or_else_no_raise check_for_zwave_cat_no_raise check_for_uom_id_no_raise
      check_for_states_in_uom_no_raise) (simp_all add: list_or_empty_def)

lemma default_cascade_raises:
  "isl (fst (default_cascade hass node))
   \<longleftrightarrow> \<not> firmware_listed node \<and> fan_or_climate_type node \<and> isl (int_of_last (nid node))"
proof (cases "firmware_listed node")
  case True
  then obtain h where "check_for_node_def hass node None = (Inr True, h)"
    using check_for_node_def_listed by blast
  with True show ?thesis
    by (simp add: default_cascade_def or_else_True)
next
  case False
  then have "check_for_node_def hass node None = (Inr False, hass)"
    by (rule check_for_node_def_unlisted)
  then have "default_cascade hass node
      = or_else (check_for_insteon_type hass node None) (\<lambda>hass.
          or_else (check_for_zwave_cat hass node None) (\<lambda>hass.
          or_else (check_for_uom_id hass node None None) (\<lambda>hass.
          or_else (check_for_states_in_uom hass node None None)
            (\<lambda>hass. (Inr False, hass)))))"
    by (simp add: default_cascade_def or_else_False)
  with False show ?thesis
    by (simp add: or_else_raises [of "check_for_insteon_type hass node None"]
        cascade_tail_no_raise check_for_insteon_type_raises)
qed

lemma completes_iff_no_raise:
  "fst (case r of (Inl e, h) \<Rightarrow> (Inl e, h) | (Inr (_ :: bool), h) \<Rightarrow> (Inr (), h :: nodes))
     = Inr ()
   \<longleftrightarrow> \<not> isl (fst r)"
  by (cases r; cases "fst r") auto

text \<open>One pass completes unless it reads an address that does not convert.\<close>

lemma categorize_node_completes:
  "fst (categorize_node hass path node ign sens) = Inr ()
   \<longleftrightarrow> \<not> (reads_address path node ign sens \<and> isl (int_of_last (nid node)))"
proof (cases "str_in ign path \<or> str_in ign (name node)")
  case True
  then show ?thesis by (simp add: categorize_node_def reads_address_def)
next
  case ignored: False
  show ?thesis
  proof (cases "is_group node")
    case True
    with ignored show ?thesis by (simp add: categorize_node_def reads_address_def)
  next
    case group: False
    show ?thesis
    proof (cases "str_in sens path \<or> str_in sens (name node)")
      case True
      with ignored group show ?thesis
        by (simp add: categorize_node_def reads_address_def is_sensor_a_binary_sensor_spec)
    next
      case False
      with ignored group
      have "categorize_node hass path node ign sens
            = (case default_cascade hass node of
                 (Inl e, hass') \<Rightarrow> (Inl e, hass')
               | (Inr _, hass') \<Rightarrow> (Inr (), hass'))"
        by (simp add: categorize_node_def)
      with False ignored group show ?thesis
        by (simp add: completes_iff_no_raise default_cascade_raises reads_address_def)
    qed
  qed
qed

lemma categorize_nodes_completes:
  "fst (categorize_nodes hass nodes ign sens) = Inr ()
   \<longleftrightarrow> (\<forall>(p, n) \<in> set nodes. reads_address p n ign sens \<longrightarrow> \<not> isl (int_of_last (nid n)))"
proof (induction nodes arbitrary: hass)
  case Nil
  then show ?case by simp
next
  case (Cons pn nodes)
  obtain p n where pn: "pn = (p, n)" by (cases pn)
  show ?case
  proof (cases "reads_address p n ign sens \<and> isl (int_of_last (nid n))")
    case True
    then have "fst (categorize_node hass p n ign sens) \<noteq> Inr ()"
      by (simp add: categorize_node_completes)
    then obtain e h where "categorize_node hass p n ign sens = (Inl e, h)"
      by (cases "categorize_node hass p n ign sens"; cases "fst (categorize_node hass p n ign sens)")
        auto
    with True show ?thesis
      by (auto simp: pn)
  next
    case False
    then have "fst (categorize_node hass p n ign sens) = Inr ()"
      by (simp add: categorize_node_completes)
    then obtain h where h: "categorize_node hass p n ign sens = (Inr (), h)"
      by (cases "categorize_node hass p n ign sens") auto
    with False Cons.IH [of h] show ?thesis
      by (auto simp: pn)
  qed
qed

text \<open>The conversion \<^verbatim>\<open>int(s[-1])\<close> fails exactly when \<open>s\<close> is empty or does not end in a digit.\<close>

lemma int_of_char_raises: "isl (int_of_char c) \<longleftrightarrow> c \<notin> set ''0123456789''"
  by (simp add: int_of_char_def)

lemma int_of_last_raises:
  "isl (int_of_last s) \<longleftrightarrow> s = [] \<or> last s \<notin> set ''0123456789''"
  by (simp add: int_of_last_def int_of_char_raises)

text \<open>
  C8, as the code has it.  The classifier runs to completion over a list of (path, node)
  pairs, with no exception, exactly when every node of the list on which the pass reads the
  address (the node is not ignored, is not a group, carries no sensor marker, is not placed
  by the firmware matcher, and has a type of the fan prefix \<open>1.46.\<close> or the climate prefix
  \<open>5.\<close>) has an address for which \<^verbatim>\<open>int(node.nid[-1])\<close> converts, that is, a non-empty
  address that ends in a decimal digit.  Of the matchers, the
  firmware and the secondary-category matcher never raise; the unit-of-measure and the
  state-token matcher never raise when a category is named or no override list is given;
  the protocol-type matcher never raises when restricted to binary_sensor, and testing all
  categories it raises exactly on a type of the fan or climate prefix with an address that
  does not convert.
\<close>

theorem classifier_completes_iff_addresses_convert:
  "(fst (categorize_nodes hass nodes ign sens) = Inr ()
      \<longleftrightarrow> (\<forall>(p, n) \<in> set nodes.
             reads_address p n ign sens \<longrightarrow> \<not> isl (int_of_last (nid n))))
   \<and> \<not> isl (fst (check_for_node_def hass node single_domain))
   \<and> \<not> isl (fst (check_for_zwave_cat hass node single_domain))
   \<and> (single_domain \<noteq> None \<or> list_or_empty override = [] \<longrightarrow>
        \<not> isl (fst (check_for_uom_id hass node single_domain override))
        \<and> \<not> isl (fst (check_for_states_in_uom hass node single_domain override)))
   \<and> \<not> isl (fst (check_for_insteon_type hass node (Some binary_sensor)))
   \<and> (isl (fst (check_for_insteon_type hass node None))
        \<longleftrightarrow> fan_or_climate_type node \<and> isl (int_of_last (nid node)))
   \<and> (isl (int_of_last address) \<longleftrightarrow> address = [] \<or> last address \<notin> set ''0123456789'')"
proof (intro conjI impI)
  show "isl (int_of_last address) \<longleftrightarrow> address = [] \<or> last address \<notin> set ''0123456789''"
    by (rule int_of_last_raises)
  show "fst (categorize_nodes hass nodes ign sens) = Inr ()
      \<longleftrightarrow> (\<forall>(p, n) \<in> set nodes.
             reads_address p n ign sens \<longrightarrow> \<not> isl (int_of_last (nid n)))"
    by (rule categorize_nodes_completes)
  show "\<not> isl (fst (check_for_node_def hass node single_domain))"
    by (rule check_for_node_def_no_raise)
  show "\<not> isl (fst (check_for_zwave_cat hass node single_domain))"
    by (rule check_for_zwave_cat_no_raise)
  show "\<not> isl (fst (check_for_insteon_type hass node (Some binary_sensor)))"
    by (rule check_for_insteon_type_binary_sensor_no_raise)
  show "isl (fst (check_for_insteon_type hass node None))
        \<longleftrightarrow> fan_or_climate_type node \<and> isl (int_of_last (nid node))"
    by (rule check_for_insteon_type_raises)
next
  assume "single_domain \<noteq> None \<or> list_or_empty override = []"
  then show "\<not> isl (fst (check_for_uom_id hass node single_domain override))"
    by (rule check_for_uom_id_no_raise)
next
  assume "single_domain \<noteq> None \<or> list_or_empty override = []"
  then show "\<not> isl (fst (check_for_states_in_uom hass node single_domain override))"
    by (rule check_for_states_in_uom_no_raise)
qed

text \<open>
  A relay at a letter address, the cool sub-node of a thermostat at a digit address, and an
  ignored thermostat at a letter address: the pass reads the address of the second only.
\<close>

theorem classifier_completes_iff_addresses_convert_witness:
  "fst (categorize_nodes (\<lambda>_. [])
     [(''shed'', \<lparr>name = ''relay'', nid = ''1A 2B 3C A'', node_def_id = None,
         type = Some ''2.44.1.0'', devtype_cat = None, uom = None, is_group = False\<rparr>),
      (''attic'', \<lparr>name = ''cool'', nid = ''4D 5E 6F 2'', node_def_id = None,
         type = Some ''5.11.13.0'', devtype_cat = None, uom = None, is_group = False\<rparr>),
      (''attic'', \<lparr>name = ''old {IGNORE ME}'', nid = ''7A 8B 9C A'', node_def_id = None,
         type = Some ''5.11.13.0'', devtype_cat = None, uom = None, is_group = False\<rparr>)]
     ''{IGNORE ME}'' ''sensor'') = Inr ()"
proof -
  let ?nodes = "[(''shed'', \<lparr>name = ''relay'', nid = ''1A 2B 3C A'', node_def_id = None,
         type = Some ''2.44.1.0'', devtype_cat = None, uom = None, is_group = False\<rparr>),
      (''attic'', \<lparr>name = ''cool'', nid = ''4D 5E 6F 2'', node_def_id = None,
         type = Some ''5.11.13.0'', devtype_cat = None, uom = None, is_group = False\<rparr>),
      (''attic'', \<lparr>name = ''old {IGNORE ME}'', nid = ''7A 8B 9C A'', node_def_id = None,
         type = Some ''5.11.13.0'', devtype_cat = None, uom = None, is_group = False\<rparr>)]"
  have "\<forall>(p, n) \<in> set ?nodes.
          reads_address p n ''{IGNORE ME}'' ''sensor'' \<longrightarrow> \<not> isl (int_of_last (nid n))"
    by (simp add: reads_address_def fan_or_climate_type_def int_of_last_def int_of_char_def)
  with classifier_completes_iff_addresses_convert
         [THEN conjunct1, of "\<lambda>_. []" ?nodes "''{IGNORE ME}''" "''sensor''"]
  show ?thesis by blast
qed

text \<open>
  C8, as stated, fails: a node with a type of the climate prefix and an address that ends
  in a letter makes \<^verbatim>\<open>int(node.nid[-1])\<close> raise \<^verbatim>\<open>ValueError\<close>, which leaves the classifier.
\<close>

theorem classifier_raises_on_letter_address:
  "categorize_node (\<lambda>_. []) ''attic''
     \<lparr>name = ''thermostat'', nid = ''1A 2B 3C A'', node_def_id = None,
        type = Some ''5.11.13.0'', devtype_cat = None, uom = None, is_group = False\<rparr>
     ''{IGNORE ME}'' ''sensor'' = (Inl ValueError, \<lambda>_. [])"
  by (simp add: categorize_node_def default_cascade_def or_else_def check_for_node_def_def
        check_for_insteon_type_def domains_for_def SUPPORTED_DOMAINS_def fan_special_case_def
        climate_special_case_def int_of_last_def int_of_char_def)

end
